theory Spec2Isabelle
  imports Complex_Main "HOL-Library.Sublist" "HOL-Library.Product_Lexorder"
begin

text \<open>
  The retrieval engine of the validator: the similarity searches over the stored
  documents and examples, the authority weighting, the merge of the document lists, the
  assembly of the prompt, the compliance heuristic and the statistics, with the text
  preprocessing of the embedding client. The embedding client, the store and the clock
  are outside the engine; what they answer is an argument of each function.
\<close>

section \<open>Texts\<close>

text \<open>
  A JavaScript string is a sequence of UTF-16 code units; \<open>length\<close> and \<open>slice\<close> count
  code units. The model writes a text as a \<^typ>\<open>string\<close>, one \<^typ>\<open>char\<close> per code unit,
  which covers the code units below 256. Numbers are JavaScript doubles and SQL
  \<open>double precision\<close> values in the program; the model computes with \<^typ>\<open>real\<close>, so no
  rounding happens in it.
\<close>

definition isWhiteSpace :: "char \<Rightarrow> bool" where
  \<comment> \<open>the class \<open>\s\<close> of a regular expression, which is also what \<open>trim\<close> removes:
      TAB, LF, VT, FF, CR, SPACE and NBSP among the code units below 256\<close>
  "isWhiteSpace c \<longleftrightarrow>
     c = CHR 0x09 \<or> c = CHR 0x0A \<or> c = CHR 0x0B \<or> c = CHR 0x0C \<or> c = CHR 0x0D \<or>
     c = CHR '' '' \<or> c = CHR 0xA0"

function replaceRuns :: "(char \<Rightarrow> bool) \<Rightarrow> char \<Rightarrow> string \<Rightarrow> string" where
  \<comment> \<open>\<open>text.replace(/p+/g, r)\<close>: every maximal run of characters of the class \<open>p\<close>
      becomes the single character \<open>r\<close>\<close>
  "replaceRuns p r [] = []"
| "replaceRuns p r (c # cs) =
     (if p c then r # replaceRuns p r (dropWhile p cs) else c # replaceRuns p r cs)"
  by pat_completeness auto
termination
  by (relation "measure (\<lambda>(p, r, cs). length cs)")
     (auto simp: length_dropWhile_le less_Suc_eq_le)

definition trim :: "string \<Rightarrow> string" where
  "trim s = rev (dropWhile isWhiteSpace (rev (dropWhile isWhiteSpace s)))"

definition normalizeWhitespace :: "string \<Rightarrow> string" where
  \<comment> \<open>the chain of \<open>preprocessText\<close> before its \<open>slice\<close>:
      \<open>text.replace(/\s+/g, ' ').replace(/\n+/g, '\n').trim()\<close>\<close>
  "normalizeWhitespace text =
     trim (replaceRuns (\<lambda>c. c = CHR 0x0A) (CHR 0x0A)
            (replaceRuns isWhiteSpace (CHR '' '') text))"

definition preprocessText :: "string \<Rightarrow> string" where
  \<comment> \<open>\<open>TitanEmbeddingClient.preprocessText\<close>\<close>
  "preprocessText text = take 8000 (normalizeWhitespace text)"

definition lowerChar :: "char \<Rightarrow> char" where
  \<comment> \<open>the case mapping of the code units below 256: A to Z, and the Latin-1 capitals
      0xC0 to 0xDE except the multiplication sign 0xD7\<close>
  "lowerChar c =
     (let n = of_char c :: nat
      in if (65 \<le> n \<and> n \<le> 90) \<or> (192 \<le> n \<and> n \<le> 222 \<and> n \<noteq> 215)
         then char_of (n + 32) else c)"

definition toLowerCase :: "string \<Rightarrow> string" where
  "toLowerCase s = map lowerChar s"

definition js_includes :: "string \<Rightarrow> string \<Rightarrow> bool" where
  \<comment> \<open>\<open>s.includes(p)\<close>\<close>
  "js_includes s p \<longleftrightarrow> sublist p s"

fun like_here :: "string \<Rightarrow> string \<Rightarrow> bool" where
  \<comment> \<open>the body of an \<open>ILIKE\<close> pattern matched at the start of a text: an underscore
      matches any one character, any other character matches itself up to case\<close>
  "like_here [] s = True"
| "like_here (p # ps) [] = False"
| "like_here (p # ps) (c # cs) =
     ((p = CHR ''_'' \<or> lowerChar p = lowerChar c) \<and> like_here ps cs)"

fun ilike_infix :: "string \<Rightarrow> string \<Rightarrow> bool" where
  \<comment> \<open>\<open>text ILIKE '%body%'\<close>\<close>
  "ilike_infix body [] = like_here body []"
| "ilike_infix body (c # cs) = (like_here body (c # cs) \<or> ilike_infix body cs)"

definition column_ilike :: "string option \<Rightarrow> string \<Rightarrow> bool" where
  \<comment> \<open>\<open>ILIKE\<close> on a nullable column: on \<open>NULL\<close> the comparison is \<open>NULL\<close>, which a
      \<open>WHEN\<close> or a \<open>WHERE\<close> does not take\<close>
  "column_ilike col body = (case col of None \<Rightarrow> False | Some s \<Rightarrow> ilike_infix body s)"

definition clip :: "nat \<Rightarrow> string \<Rightarrow> string \<Rightarrow> string" where
  \<comment> \<open>the template fragment \<open>${s.slice(0, n)}${s.length > n ? marker : ''}\<close>, which the
      prompt builders write at every place where they cut a text\<close>
  "clip n marker s = take n s @ (if length s > n then marker else [])"

definition digit :: "nat \<Rightarrow> char" where
  "digit d = char_of (48 + d)"

function show_nat :: "nat \<Rightarrow> string" where
  \<comment> \<open>a natural number in a template literal: its decimal digits\<close>
  "show_nat n = (if n < 10 then [digit n] else show_nat (n div 10) @ [digit (n mod 10)])"
  by pat_completeness auto
termination
  by (relation "measure (\<lambda>n. n)") auto

definition show_int :: "int \<Rightarrow> string" where
  "show_int i = (if i < 0 then ''-'' @ show_nat (nat (- i)) else show_nat (nat i))"

definition toFixed1 :: "real \<Rightarrow> string" where
  \<comment> \<open>\<open>x.toFixed(1)\<close> for a magnitude below \<open>10^21\<close>: the nearest multiple of one tenth,
      the larger one at a tie, after the sign\<close>
  "toFixed1 x =
     (let n = nat \<lfloor>\<bar>x\<bar> * 10 + 1 / 2\<rfloor>
      in (if x < 0 then ''-'' else []) @ show_nat (n div 10) @ ''.'' @ show_nat (n mod 10))"

section \<open>Failures\<close>

datatype thrown = Error string | NonError
  \<comment> \<open>what a rejected promise carries: an \<open>Error\<close> object with its message, or any
      other value\<close>

definition errorMessage :: "thrown \<Rightarrow> string" where
  \<comment> \<open>\<open>error instanceof Error ? error.message : 'Unknown error'\<close>\<close>
  "errorMessage error = (case error of Error m \<Rightarrow> m | NonError \<Rightarrow> ''Unknown error'')"

section \<open>Data model\<close>

datatype json =
  JNull | JBool bool | JNumber real | JString string
  | JArray "json list" | JObject "(string \<times> json) list"

fun truthy :: "json \<Rightarrow> bool" where
  "truthy JNull = False"
| "truthy (JBool b) = b"
| "truthy (JNumber x) = (x \<noteq> 0)"
| "truthy (JString s) = (s \<noteq> [])"
| "truthy (JArray xs) = True"
| "truthy (JObject kvs) = True"

definition text_or_undefined :: "string option \<Rightarrow> string option" where
  \<comment> \<open>\<open>column || undefined\<close> on a nullable text column: \<open>NULL\<close> and the empty text
      both give \<open>undefined\<close>\<close>
  "text_or_undefined col = (case col of None \<Rightarrow> None | Some s \<Rightarrow> if s = [] then None else Some s)"

definition json_or_undefined :: "json option \<Rightarrow> json option" where
  "json_or_undefined col = (case col of None \<Rightarrow> None | Some j \<Rightarrow> if truthy j then Some j else None)"

text \<open>
  The rows of the tables \<open>knowledge_documents\<close> and \<open>code_examples\<close>, with the columns the
  queries read. The embedding type is a parameter: the vectors are only handed to the
  store's distance operator.
\<close>

record 'e knowledgeDocument =
  kd_id :: string
  kd_title :: string
  kd_content :: string
  kd_section :: "string option"
  kd_documentType :: string
  kd_embedding :: "'e option"
  kd_metadata :: "json option"

record 'e codeExample =
  ce_id :: string
  ce_title :: string
  ce_codeContent :: string
  ce_qualityScore :: int
  ce_category :: "string option"
  ce_description :: "string option"
  ce_embedding :: "'e option"
  ce_tags :: "string list option"

record searchResult =
  id' :: string
  title :: string
  content :: string
  section' :: "string option"
  documentType :: string
  similarity :: real
  metadata :: "json option"

record exampleSearchResult =
  id_ex :: string
  title_ex :: string
  codeContent :: string
  qualityScore :: int
  category :: "string option"
  description :: "string option"
  similarity_ex :: real
  tags :: "string list option"

record ruleCompliance =
  missingRequirements :: "string list"
  complianceScore :: int
  suggestions :: "string list"

record searchMetadata =
  documentsFound :: nat
  examplesFound :: nat
  queryProcessingTime :: int

record ragContext =
  relevantDocuments :: "searchResult list"
  similarExamples :: "exampleSearchResult list"
  enhancedPrompt :: string
  searchMetadata :: searchMetadata
  complianceContext :: "ruleCompliance option"

record searchStats =
  totalDocuments :: nat
  totalExamples :: nat
  documentTypes :: "string \<rightharpoonup> nat"
  exampleCategories :: "string \<rightharpoonup> nat"

section \<open>The embedding client and the store\<close>

text \<open>
  What one call sees of the services outside the engine: the embedding client, which
  returns an array of numbers or throws, and the store. For each table the store either
  does not take the query, or holds rows. The store checks a statement before it runs
  it. Its cosine distance \<open><=>\<close> takes a vector on both sides. The route
  \<open>test-search\<close> of the repository writes the query embedding as a text and casts it,
  \<open>${vectorString}::vector\<close>, which is a vector. The searches of the engine write
  \<open>${queryEmbedding}\<close> with the array itself, and an \<open>sql\<close> template writes an array
  as the list of its elements in parentheses, \<open>($1, ..., $n)\<close>, which is a row and not a
  vector: the store has no operator \<open><=>\<close> between a vector and a row and rejects the
  statement, whatever the table holds.

  SQL leaves the order of rows with equal sort keys to the store. That choice is
  \<open>tie_rank\<close>, a rank of the store's own on the primary keys of the rows, which are
  distinct within a table; the engine knows nothing about it, and it need not be the
  order of insertion.
\<close>

datatype 'e operand = Vector 'e | Row 'e
  \<comment> \<open>what stands to the right of \<open><=>\<close> in a statement\<close>

definition interpolate :: "'e \<Rightarrow> 'e operand" where
  \<comment> \<open>\<open>${queryEmbedding}\<close> in an \<open>sql\<close> template, \<open>queryEmbedding\<close> being the
      \<open>number[]\<close> that \<open>generateEmbedding\<close> returned\<close>
  "interpolate queryEmbedding = Row queryEmbedding"

record 'e env =
  generateEmbedding :: "string \<Rightarrow> thrown + 'e"
  cosine_distance :: "'e \<Rightarrow> 'e \<Rightarrow> real"
  select_knowledgeDocuments :: "thrown + 'e knowledgeDocument list"
  select_codeExamples :: "thrown + 'e codeExample list"
  reject :: thrown  \<comment> \<open>what the store throws for a statement that does not type-check\<close>
  tie_rank :: "string \<Rightarrow> nat"

definition distanceTo :: "'e env \<Rightarrow> 'e operand \<Rightarrow> thrown + ('e \<Rightarrow> real)" where
  \<comment> \<open>the meaning of \<open>embedding <=> operand\<close>: a distance for a vector, no operator for
      a row\<close>
  "distanceTo env operand =
     (case operand of
        Vector q \<Rightarrow> Inr (\<lambda>e. cosine_distance env e q)
      | Row q \<Rightarrow> Inl (reject env))"

definition withDistance ::
  "('e \<Rightarrow> real) \<Rightarrow> ('r \<Rightarrow> 'e option) \<Rightarrow> 'r list \<Rightarrow> ('r \<times> real) list" where
  \<comment> \<open>each row with the value of \<open>embedding <=> operand\<close>; on a \<open>NULL\<close> embedding the
      distance is \<open>NULL\<close>, no comparison with it holds, and the row is in no result\<close>
  "withDistance distance embedding rows =
     List.map_filter (\<lambda>r. map_option (\<lambda>e. (r, distance e)) (embedding r)) rows"

definition nearestRows ::
  "'e env \<Rightarrow> 'e operand \<Rightarrow> ('r \<Rightarrow> 'e option) \<Rightarrow> ('r \<Rightarrow> string) \<Rightarrow> ('r \<times> real \<Rightarrow> bool)
     \<Rightarrow> ('r \<times> real \<Rightarrow> real) \<Rightarrow> nat \<Rightarrow> 'r list \<Rightarrow> thrown + ('r \<times> real) list" where
  \<comment> \<open>the statement of a search, \<open>select ... from table where cond order by key limit
      topK\<close>, run on the rows of the table: each selected row with its distance, in
      ascending order of the key and, among equal keys, of the store's rank\<close>
  "nearestRows env operand embedding pk cond key topK rows =
     (case distanceTo env operand of
        Inl error \<Rightarrow> Inl error
      | Inr distance \<Rightarrow>
          Inr (take topK
                (sort_key (\<lambda>rd. (key rd, tie_rank env (pk (fst rd))))
                  (filter cond (withDistance distance embedding rows)))))"

section \<open>Similarity searches\<close>

definition toSearchResult :: "'e knowledgeDocument \<Rightarrow> real \<Rightarrow> searchResult" where
  \<comment> \<open>the object the searches build from a selected row and its score\<close>
  "toSearchResult result score =
     \<lparr>id' = kd_id result, title = kd_title result, content = kd_content result,
      section' = text_or_undefined (kd_section result),
      documentType = kd_documentType result, similarity = score,
      metadata = json_or_undefined (kd_metadata result)\<rparr>"

definition weightedScore :: "string option \<Rightarrow> string \<Rightarrow> real \<Rightarrow> real" where
  \<comment> \<open>the \<open>CASE\<close> expression of \<open>searchPantherRules\<close>, written once in its \<open>select\<close> and
      once more in its \<open>orderBy\<close>, on the section, the document type and the value of
      \<open>1 - (embedding <=> queryEmbedding)\<close>\<close>
  "weightedScore sec ty sim =
     (if column_ilike sec ''Panther Rule'' \<and> ty = ''rule'' then sim * 1.3
      else if column_ilike sec ''Writing Python Detections'' then sim * 1.2
      else if ty = ''rule'' then sim * 1.1
      else sim)"

definition rowWeightedScore :: "'e knowledgeDocument \<times> real \<Rightarrow> real" where
  "rowWeightedScore rd =
     weightedScore (kd_section (fst rd)) (kd_documentType (fst rd)) (1 - snd rd)"

definition selectPantherRules ::
  "'e env \<Rightarrow> 'e operand \<Rightarrow> nat \<Rightarrow> real \<Rightarrow> 'e knowledgeDocument list
     \<Rightarrow> thrown + ('e knowledgeDocument \<times> real) list" where
  \<comment> \<open>the statement of \<open>searchPantherRules\<close>: the rows within the distance,
      \<open>ORDER BY\<close> the weighted score \<open>DESC\<close> and nothing else, \<open>LIMIT topK\<close>\<close>
  "selectPantherRules env operand topK minSimilarity rows =
     nearestRows env operand kd_embedding kd_id
       (\<lambda>rd. snd rd < 1 - minSimilarity) (\<lambda>rd. - rowWeightedScore rd) topK rows"

definition searchPantherRules ::
  "'e env \<Rightarrow> string \<Rightarrow> nat \<Rightarrow> real \<Rightarrow> thrown + searchResult list" where
  "searchPantherRules env query topK minSimilarity =
     (case
        (case generateEmbedding env (preprocessText query) of
           Inl error \<Rightarrow> Inl error
         | Inr queryEmbedding \<Rightarrow>
             (case select_knowledgeDocuments env of
                Inl error \<Rightarrow> Inl error
              | Inr rows \<Rightarrow>
                  (case selectPantherRules env (interpolate queryEmbedding) topK
                          minSimilarity rows of
                     Inl error \<Rightarrow> Inl error
                   | Inr results \<Rightarrow>
                       Inr (map (\<lambda>rd. toSearchResult (fst rd) (rowWeightedScore rd))
                              results))))
      of
        Inl error \<Rightarrow> Inl (Error (''Panther rule search failed: '' @ errorMessage error))
      | Inr results \<Rightarrow> Inr results)"

definition searchRelevantRules ::
  "'e env \<Rightarrow> string \<Rightarrow> nat \<Rightarrow> real \<Rightarrow> thrown + searchResult list" where
  "searchRelevantRules env query topK minSimilarity =
     (case
        (case generateEmbedding env (preprocessText query) of
           Inl error \<Rightarrow> Inl error
         | Inr queryEmbedding \<Rightarrow>
             (case select_knowledgeDocuments env of
                Inl error \<Rightarrow> Inl error
              | Inr rows \<Rightarrow>
                  (case nearestRows env (interpolate queryEmbedding) kd_embedding kd_id
                          (\<lambda>rd. snd rd < 1 - minSimilarity) snd topK rows of
                     Inl error \<Rightarrow> Inl error
                   | Inr results \<Rightarrow>
                       Inr (map (\<lambda>rd. toSearchResult (fst rd) (1 - snd rd)) results))))
      of
        Inl error \<Rightarrow> Inl (Error (''RAG search failed: '' @ errorMessage error))
      | Inr results \<Rightarrow> Inr results)"

definition toExampleSearchResult :: "'e codeExample \<Rightarrow> real \<Rightarrow> exampleSearchResult" where
  "toExampleSearchResult result score =
     \<lparr>id_ex = ce_id result, title_ex = ce_title result,
      codeContent = ce_codeContent result, qualityScore = ce_qualityScore result,
      category = text_or_undefined (ce_category result),
      description = text_or_undefined (ce_description result),
      similarity_ex = score, tags = ce_tags result\<rparr>"

definition searchSimilarExamples ::
  "'e env \<Rightarrow> string \<Rightarrow> nat \<Rightarrow> real \<Rightarrow> thrown + exampleSearchResult list" where
  "searchSimilarExamples env code topK minSimilarity =
     (case
        (case generateEmbedding env (preprocessText code) of
           Inl error \<Rightarrow> Inl error
         | Inr codeEmbedding \<Rightarrow>
             (case select_codeExamples env of
                Inl error \<Rightarrow> Inl error
              | Inr rows \<Rightarrow>
                  (case nearestRows env (interpolate codeEmbedding) ce_embedding ce_id
                          (\<lambda>rd. snd rd < 1 - minSimilarity) snd topK rows of
                     Inl error \<Rightarrow> Inl error
                   | Inr results \<Rightarrow>
                       Inr (map (\<lambda>rd. toExampleSearchResult (fst rd) (1 - snd rd))
                              results))))
      of
        Inl error \<Rightarrow> Inl (Error (''Example search failed: '' @ errorMessage error))
      | Inr results \<Rightarrow> Inr results)"

definition pantherKeywords :: "string list" where
  \<comment> \<open>the bodies of the \<open>ILIKE '%...%'\<close> patterns of \<open>searchByPantherFunctions\<close>\<close>
  "pantherKeywords =
     [''rule('', ''severity('', ''title('', ''dedup('', ''runbook('',
      ''deep_get'', ''deep_walk'', ''event.get'', ''event.udm'']"

definition searchByPantherFunctions ::
  "'e env \<Rightarrow> string \<Rightarrow> nat \<Rightarrow> thrown + searchResult list" where
  "searchByPantherFunctions env query topK =
     (case
        (case generateEmbedding env (preprocessText query) of
           Inl error \<Rightarrow> Inl error
         | Inr queryEmbedding \<Rightarrow>
             (case select_knowledgeDocuments env of
                Inl error \<Rightarrow> Inl error
              | Inr rows \<Rightarrow>
                  (case nearestRows env (interpolate queryEmbedding) kd_embedding kd_id
                          (\<lambda>rd. (\<exists>k \<in> set pantherKeywords.
                                    ilike_infix k (kd_content (fst rd))) \<and> snd rd < 0.5)
                          (\<lambda>rd. - (1 - snd rd)) topK rows of
                     Inl error \<Rightarrow> Inl error
                   | Inr results \<Rightarrow>
                       Inr (map (\<lambda>rd. toSearchResult (fst rd) (1 - snd rd)) results))))
      of
        Inl error \<Rightarrow> Inr []
      | Inr results \<Rightarrow> Inr results)"

section \<open>Building the context\<close>

fun dropSeen :: "string set \<Rightarrow> searchResult list \<Rightarrow> searchResult list" where
  \<comment> \<open>the \<open>filter\<close> of \<open>buildEnhancedContext\<close> with its set \<open>seenIds\<close>\<close>
  "dropSeen seenIds [] = []"
| "dropSeen seenIds (doc # docs) =
     (if id' doc \<in> seenIds then dropSeen seenIds docs
      else doc # dropSeen (insert (id' doc) seenIds) docs)"

text \<open>
  The texts that the program writes in Korean, which this theory cannot spell. Each is a
  parameter of the functions that emit it, named after its place in the source; the
  theorems hold whatever they are.
\<close>

record literals =
  lit_role :: string  \<comment> \<open>the role statement, with its blank line\<close>
  lit_officialHeading :: string  \<comment> \<open>the heading line of the official guidelines\<close>
  lit_authority :: string  \<comment> \<open>the label before the score of an official document\<close>
  lit_keyRequirements :: string  \<comment> \<open>the label before the text of an official document\<close>
  lit_otherHeading :: string  \<comment> \<open>the heading line of the further documents\<close>
  lit_relevance :: string  \<comment> \<open>the label before the score of a further document\<close>
  lit_examplesHeading :: string  \<comment> \<open>the heading line of the examples\<close>
  lit_example :: string
  lit_qualityScore :: string
  lit_similarity :: string
  lit_description :: string
  lit_category :: string
  lit_code :: string
  lit_criteriaHeading :: string  \<comment> \<open>the heading line of the criteria\<close>
  lit_officialChecklist :: string  \<comment> \<open>the checklist written when official documents matched\<close>
  lit_closing :: string  \<comment> \<open>the quality criteria, the instructions and the output format\<close>
  lit_documentsHeading :: string  \<comment> \<open>the heading line of the documents, earlier engine\<close>
  lit_basicCriteria :: string  \<comment> \<open>the criteria and the output format, earlier engine\<close>
  lit_missingRule :: string  \<comment> \<open>the requirement recorded when \<open>def rule(\<close> is absent\<close>
  lit_missingAccess :: string
  lit_missingReturn :: string
  lit_bestPractice :: string  \<comment> \<open>the label of a suggestion\<close>

definition forEachIndexed :: "(nat \<Rightarrow> 'a \<Rightarrow> string) \<Rightarrow> 'a list \<Rightarrow> string" where
  \<comment> \<open>\<open>xs.forEach((x, index) => { prompt += f(index, x) })\<close>\<close>
  "forEachIndexed f xs = concat (map (\<lambda>ix. f (fst ix) (snd ix)) (enumerate 0 xs))"

definition sectionSuffix :: "searchResult \<Rightarrow> string" where
  \<comment> \<open>\<open>if (doc.section) prompt += ` - ${doc.section}`\<close>\<close>
  "sectionSuffix doc =
     (case section' doc of None \<Rightarrow> [] | Some s \<Rightarrow> if s = [] then [] else '' - '' @ s)"

definition sectionIncludes :: "searchResult \<Rightarrow> string \<Rightarrow> bool" where
  \<comment> \<open>\<open>doc.section?.includes(p)\<close> as a condition\<close>
  "sectionIncludes doc p = (case section' doc of None \<Rightarrow> False | Some s \<Rightarrow> js_includes s p)"

definition isOfficialRule :: "searchResult \<Rightarrow> bool" where
  "isOfficialRule doc \<longleftrightarrow>
     sectionIncludes doc ''Panther Rule'' \<or>
     sectionIncludes doc ''Writing Python Detections'' \<or>
     documentType doc = ''rule''"

definition officialRuleEntry :: "literals \<Rightarrow> nat \<Rightarrow> searchResult \<Rightarrow> string" where
  "officialRuleEntry L index doc =
     ''### '' @ show_nat (index + 1) @ ''. '' @ title doc
     @ sectionSuffix doc
     @ '' ('' @ lit_authority L @ '': '' @ toFixed1 (similarity doc * 100) @ ''%)'' @ [CHR 0x0A]
     @ ''**'' @ lit_keyRequirements L @ ''**: '' @ clip 1000 ''...'' (content doc)
     @ [CHR 0x0A, CHR 0x0A]"

definition otherDocEntry :: "literals \<Rightarrow> nat \<Rightarrow> searchResult \<Rightarrow> string" where
  "otherDocEntry L index doc =
     ''### '' @ show_nat (index + 1) @ ''. '' @ title doc
     @ sectionSuffix doc
     @ '' ('' @ lit_relevance L @ '': '' @ toFixed1 (similarity doc * 100) @ ''%)'' @ [CHR 0x0A]
     @ clip 600 ''...'' (content doc) @ [CHR 0x0A, CHR 0x0A]"

definition truncatedMarker :: string where
  "truncatedMarker = CHR 0x0A # ''# ... (truncated)''"

definition exampleEntry :: "literals \<Rightarrow> nat \<Rightarrow> exampleSearchResult \<Rightarrow> string" where
  "exampleEntry L index example =
     ''### '' @ lit_example L @ '' '' @ show_nat (index + 1) @ '': '' @ title_ex example
     @ '' ('' @ lit_qualityScore L @ '': '' @ show_int (qualityScore example) @ ''/100, ''
     @ lit_similarity L @ '': '' @ toFixed1 (similarity_ex example * 100) @ ''%)'' @ [CHR 0x0A]
     @ (case description example of None \<Rightarrow> []
        | Some d \<Rightarrow> if d = [] then []
                    else ''**'' @ lit_description L @ ''**: '' @ d @ [CHR 0x0A])
     @ (case category example of None \<Rightarrow> []
        | Some c \<Rightarrow> if c = [] then []
                    else ''**'' @ lit_category L @ ''**: '' @ c @ [CHR 0x0A])
     @ ''**'' @ lit_code L @ ''**:'' @ [CHR 0x0A] @ ''```python'' @ [CHR 0x0A]
     @ clip 600 truncatedMarker (codeContent example)
     @ [CHR 0x0A] @ ''```'' @ [CHR 0x0A, CHR 0x0A]"

definition buildPromptWithRAG ::
  "literals \<Rightarrow> searchResult list \<Rightarrow> exampleSearchResult list \<Rightarrow> string" where
  "buildPromptWithRAG L documents examples =
     (let officialRules = filter isOfficialRule documents;
          otherDocs = filter (\<lambda>doc. doc \<notin> set officialRules) documents
      in lit_role L
         @ (if officialRules \<noteq> []
            then lit_officialHeading L @ forEachIndexed (officialRuleEntry L) officialRules
            else [])
         @ (if otherDocs \<noteq> []
            then lit_otherHeading L @ forEachIndexed (otherDocEntry L) otherDocs
            else [])
         @ (if examples \<noteq> []
            then lit_examplesHeading L @ forEachIndexed (exampleEntry L) examples
            else [])
         @ lit_criteriaHeading L
         @ (if officialRules \<noteq> [] then lit_officialChecklist L else [])
         @ lit_closing L)"



text \<open>
  \<open>buildEnhancedContext\<close> starts its three searches together and waits for all of them.
  Each search sees the services as they answer it, so the world of one call holds three
  environments, and the two readings of the clock. When more than one search fails, the
  failure handed on is that of the first in the array. What the function does with the
  results of the searches is \<open>contextOf\<close>: the merge, the prompt and the object that it
  returns.
\<close>

record 'e contextWorld =
  env_rules :: "'e env"
  env_functions :: "'e env"
  env_examples :: "'e env"
  startTime :: int
  endTime :: int

definition mergeDocuments :: "searchResult list \<Rightarrow> searchResult list \<Rightarrow> searchResult list" where
  \<comment> \<open>\<open>[...pantherRules, ...functionDocs].filter(...).slice(0, 5)\<close>\<close>
  "mergeDocuments pantherRules functionDocs =
     take 5 (dropSeen {} (pantherRules @ functionDocs))"

definition contextOf ::
  "literals \<Rightarrow> searchResult list \<Rightarrow> searchResult list \<Rightarrow> exampleSearchResult list \<Rightarrow> int
     \<Rightarrow> ragContext" where
  "contextOf L pantherRules functionDocs similarExamples' processingTime =
     (let relevantDocuments' = mergeDocuments pantherRules functionDocs;
          enhancedPrompt' = buildPromptWithRAG L relevantDocuments' similarExamples'
      in \<lparr>relevantDocuments = relevantDocuments',
          similarExamples = similarExamples',
          enhancedPrompt = enhancedPrompt',
          searchMetadata =
            \<lparr>documentsFound = length relevantDocuments',
             examplesFound = length similarExamples',
             queryProcessingTime = processingTime\<rparr>,
          complianceContext = None\<rparr>)"

definition buildEnhancedContext ::
  "literals \<Rightarrow> 'e contextWorld \<Rightarrow> string \<Rightarrow> thrown + ragContext" where
  "buildEnhancedContext L w code =
     (case searchPantherRules (env_rules w) code 3 0.75 of
        Inl error \<Rightarrow> Inl error
      | Inr pantherRules \<Rightarrow>
     (case searchByPantherFunctions (env_functions w) code 2 of
        Inl error \<Rightarrow> Inl error
      | Inr functionDocs \<Rightarrow>
     (case searchSimilarExamples (env_examples w) code 3 0.65 of
        Inl error \<Rightarrow> Inl error
      | Inr similarExamples' \<Rightarrow>
          Inr (contextOf L pantherRules functionDocs similarExamples'
                 (endTime w - startTime w)))))"

section \<open>The compliance heuristic\<close>

function splitRuns :: "(char \<Rightarrow> bool) \<Rightarrow> string \<Rightarrow> string list" where
  \<comment> \<open>\<open>s.split(/p+/)\<close>: the pieces between the maximal runs of characters of the class
      \<open>p\<close>, an empty piece where the text starts or ends with a run\<close>
  "splitRuns p s =
     (case dropWhile (\<lambda>c. \<not> p c) s of
        [] \<Rightarrow> [takeWhile (\<lambda>c. \<not> p c) s]
      | d # rest \<Rightarrow> takeWhile (\<lambda>c. \<not> p c) s # splitRuns p (dropWhile p rest))"
  by pat_completeness auto
termination
proof (relation "measure (\<lambda>(p, s). length s)")
  show "wf (measure (\<lambda>(p, s). length s))" by simp
next
  fix p :: "char \<Rightarrow> bool" and s :: string and d :: char and rest :: string
  assume a: "dropWhile (\<lambda>c. \<not> p c) s = d # rest"
  have "length (dropWhile p rest) \<le> length rest" by (rule length_dropWhile_le)
  moreover have "length (d # rest) \<le> length s"
    unfolding a [symmetric] by (rule length_dropWhile_le)
  ultimately show "((p, dropWhile p rest), (p, s)) \<in> measure (\<lambda>(p, s). length s)" by simp
qed

definition isSentenceEnd :: "char \<Rightarrow> bool" where
  \<comment> \<open>the class \<open>[.!?]\<close>\<close>
  "isSentenceEnd c \<longleftrightarrow> c = CHR ''.'' \<or> c = CHR ''!'' \<or> c = CHR ''?''"

definition set_add :: "'a list \<Rightarrow> 'a \<Rightarrow> 'a list" where
  \<comment> \<open>\<open>Set.add\<close>: a JavaScript \<open>Set\<close> keeps its elements in the order of their first
      insertion, so it is the list of them\<close>
  "set_add elems x = (if x \<in> set elems then elems else elems @ [x])"

definition bestPracticesOf :: "searchResult \<Rightarrow> string list" where
  \<comment> \<open>what one document of \<open>extractRulePatterns\<close> adds to \<open>bestPractices\<close>, in order\<close>
  "bestPracticesOf doc =
     (let content' = toLowerCase (content doc)
      in if sectionIncludes doc ''best practice'' \<or> js_includes content' ''best practice''
         then map (\<lambda>sentence. take 100 (trim sentence))
                (filter (\<lambda>sentence. js_includes sentence ''should'' \<or>
                                      js_includes sentence ''must'' \<or>
                                      js_includes sentence ''recommended'')
                   (splitRuns isSentenceEnd content'))
         else [])"

definition extractRulePatterns_bestPractices :: "searchResult list \<Rightarrow> string list" where
  \<comment> \<open>the field \<open>bestPractices\<close> of \<open>extractRulePatterns\<close>, the only one that
      \<open>buildRuleComplianceContext\<close> reads\<close>
  "extractRulePatterns_bestPractices documents =
     take 5 (foldl set_add [] (concat (map bestPracticesOf documents)))"

definition recordMissing ::
  "bool \<Rightarrow> string \<Rightarrow> int \<Rightarrow> string list \<times> int \<Rightarrow> string list \<times> int" where
  \<comment> \<open>one check of \<open>buildRuleComplianceContext\<close> on its two variables:
      \<open>if (missing) { missingRequirements.push(message); complianceScore -= penalty }\<close>\<close>
  "recordMissing missing message penalty st =
     (if missing then (fst st @ [message], snd st - penalty) else st)"

definition buildRuleComplianceContext ::
  "literals \<Rightarrow> string \<Rightarrow> searchResult list \<Rightarrow> ruleCompliance" where
  "buildRuleComplianceContext L code documents =
     (let bestPractices = extractRulePatterns_bestPractices documents;
          codeLines = toLowerCase code;
          st0 = ([], 100);
          st1 = recordMissing (\<not> js_includes codeLines ''def rule('')
                  (lit_missingRule L) 30 st0;
          st2 = recordMissing (\<not> js_includes codeLines ''event.get('' \<and>
                               \<not> js_includes codeLines ''deep_get('')
                  (lit_missingAccess L) 15 st1;
          st3 = recordMissing (\<not> js_includes codeLines ''return true'' \<and>
                               \<not> js_includes codeLines ''return false'')
                  (lit_missingReturn L) 20 st2
      in \<lparr>missingRequirements = fst st3,
          complianceScore = max 0 (snd st3),
          suggestions = map (\<lambda>practice. lit_bestPractice L @ '': '' @ practice) bestPractices\<rparr>)"

text \<open>
  The branch of the route \<open>validate-rag\<close> that runs when RAG is enabled: it builds the
  context, then computes the compliance context and stores it in the context object.
\<close>

definition attachCompliance :: "literals \<Rightarrow> string \<Rightarrow> ragContext \<Rightarrow> ragContext" where
  \<comment> \<open>\<open>ragContext.complianceContext =
        ragEngine.buildRuleComplianceContext(code, ragContext.relevantDocuments)\<close>\<close>
  "attachCompliance L code ragContext =
     ragContext\<lparr>complianceContext :=
       Some (buildRuleComplianceContext L code (relevantDocuments ragContext))\<rparr>"

definition POST_ragContext ::
  "literals \<Rightarrow> 'e contextWorld \<Rightarrow> string \<Rightarrow> thrown + ragContext" where
  "POST_ragContext L w code =
     (case buildEnhancedContext L w code of
        Inl error \<Rightarrow> Inl error
      | Inr ragContext \<Rightarrow> Inr (attachCompliance L code ragContext))"

section \<open>Statistics\<close>

definition countRows :: "'r list \<Rightarrow> nat list" where
  \<comment> \<open>\<open>select count(*)\<close>: one row, with the number of rows\<close>
  "countRows rows = [length rows]"

definition firstCount :: "nat list \<Rightarrow> nat" where
  \<comment> \<open>\<open>const [c] = rows\<close> and then \<open>c?.count || 0\<close>\<close>
  "firstCount rows = (case rows of [] \<Rightarrow> 0 | c # _ \<Rightarrow> c)"

definition groupCount :: "'k list \<Rightarrow> ('k \<times> nat) list" where
  \<comment> \<open>\<open>select key, count(*) ... group by key\<close>\<close>
  "groupCount keys = map (\<lambda>k. (k, count_list keys k)) (remdups keys)"

definition fromEntries :: "('k \<times> 'v) list \<Rightarrow> ('k \<rightharpoonup> 'v)" where
  \<comment> \<open>\<open>Object.fromEntries\<close>: a later entry replaces an earlier one with the same key\<close>
  "fromEntries entries = map_of (rev entries)"

definition emptyStats :: searchStats where
  "emptyStats =
     \<lparr>totalDocuments = 0, totalExamples = 0,
      documentTypes = Map.empty, exampleCategories = Map.empty\<rparr>"

text \<open>The four queries of \<open>getSearchStats\<close> run one after the other, each in its own
  environment.\<close>

definition getSearchStats ::
  "'e env \<Rightarrow> 'e env \<Rightarrow> 'e env \<Rightarrow> 'e env \<Rightarrow> thrown + searchStats" where
  "getSearchStats env1 env2 env3 env4 =
     (case
        (case select_knowledgeDocuments env1 of
           Inl error \<Rightarrow> Inl error
         | Inr rows1 \<Rightarrow>
        (case select_codeExamples env2 of
           Inl error \<Rightarrow> Inl error
         | Inr rows2 \<Rightarrow>
        (case select_knowledgeDocuments env3 of
           Inl error \<Rightarrow> Inl error
         | Inr rows3 \<Rightarrow>
        (case select_codeExamples env4 of
           Inl error \<Rightarrow> Inl error
         | Inr rows4 \<Rightarrow>
             (let docCount = countRows rows1;
                  exampleCount = countRows rows2;
                  docTypes = groupCount (map kd_documentType rows3);
                  exampleCategories' = groupCount (List.map_filter ce_category rows4)
              in Inr \<lparr>totalDocuments = firstCount docCount,
                      totalExamples = firstCount exampleCount,
                      documentTypes = fromEntries docTypes,
                      exampleCategories =
                        fromEntries
                          (map (\<lambda>ec. (if fst ec = [] then ''uncategorized'' else fst ec, snd ec))
                             exampleCategories')\<rparr>)))))
      of
        Inl error \<Rightarrow> Inr emptyStats
      | Inr stats \<Rightarrow> Inr stats)"

section \<open>Example values\<close>

text \<open>
  A small world for the concrete instances below: an embedding is a point of the real
  line, the distance of two embeddings is the distance of the points, and every query is
  embedded at 0, so that a stored document's embedding is its distance from the query.
  The store ranks rows by the first character of their primary key.
\<close>

definition example_rank :: "string \<Rightarrow> nat" where
  "example_rank pk = (case pk of [] \<Rightarrow> 0 | c # cs \<Rightarrow> of_char c)"

definition example_env :: "real knowledgeDocument list \<Rightarrow> real codeExample list \<Rightarrow> real env" where
  "example_env docs examples =
     \<lparr>generateEmbedding = (\<lambda>text. Inr 0),
      cosine_distance = (\<lambda>e q. \<bar>e - q\<bar>),
      select_knowledgeDocuments = Inr docs,
      select_codeExamples = Inr examples,
      reject = Error ''operator does not exist: vector <=> record'',
      tie_rank = example_rank\<rparr>"

definition example_env_down :: "real env" where
  \<comment> \<open>the embedding client answers, every query to the store throws\<close>
  "example_env_down =
     \<lparr>generateEmbedding = (\<lambda>text. Inr 0),
      cosine_distance = (\<lambda>e q. \<bar>e - q\<bar>),
      select_knowledgeDocuments = Inl (Error ''connection refused''),
      select_codeExamples = Inl (Error ''connection refused''),
      reject = Error ''operator does not exist: vector <=> record'',
      tie_rank = example_rank\<rparr>"

definition example_doc ::
  "string \<Rightarrow> string option \<Rightarrow> string \<Rightarrow> real \<Rightarrow> real knowledgeDocument" where
  "example_doc name sec ty distance =
     \<lparr>kd_id = name, kd_title = name, kd_content = ''rule(event)'', kd_section = sec,
      kd_documentType = ty, kd_embedding = Some distance, kd_metadata = None\<rparr>"

definition example_literals :: literals where
  "example_literals =
     \<lparr>lit_role = ''role'', lit_officialHeading = ''official'', lit_authority = ''authority'',
      lit_keyRequirements = ''requirements'', lit_otherHeading = ''other'',
      lit_relevance = ''relevance'', lit_examplesHeading = ''examples'',
      lit_example = ''example'', lit_qualityScore = ''quality'',
      lit_similarity = ''similarity'', lit_description = ''description'',
      lit_category = ''category'', lit_code = ''code'', lit_criteriaHeading = ''criteria'',
      lit_officialChecklist = ''checklist'', lit_closing = ''closing'',
      lit_documentsHeading = ''documents'', lit_basicCriteria = ''criteria'',
      lit_missingRule = ''rule function missing'',
      lit_missingAccess = ''safe access missing'',
      lit_missingReturn = ''boolean return missing'',
      lit_bestPractice = ''best practice''\<rparr>"

definition example_world :: "real knowledgeDocument list \<Rightarrow> real contextWorld" where
  "example_world docs =
     \<lparr>env_rules = example_env docs [], env_functions = example_env docs [],
      env_examples = example_env docs [], startTime = 0, endTime = 12\<rparr>"

definition scenario_docs :: "real knowledgeDocument list" where
  \<comment> \<open>an unlabeled note at similarity 0.75 and an official rule at similarity 0.72\<close>
  "scenario_docs =
     [example_doc ''community-note'' None ''best-practice'' 0.25,
      example_doc ''official-rule'' (Some ''Panther Rule'') ''rule'' 0.28]"



definition overlap_docs :: "real knowledgeDocument list" where
  \<comment> \<open>the official rule is found by the weighted search and by the keyword search\<close>
  "overlap_docs =
     [example_doc ''community-note'' None ''best-practice'' 0.25,
      example_doc ''official-rule'' (Some ''Panther Rule'') ''rule'' 0.2]"


section \<open>Properties in the words of the specification\<close>

definition firstOccurrences :: "searchResult list \<Rightarrow> searchResult list" where
  \<comment> \<open>the merge as the specification words it: the entries in their order, every later
      occurrence of an identity already seen dropped; that is, the entry at a position
      stays when its identity is not among the entries before that position\<close>
  "firstOccurrences docs =
     map snd (filter (\<lambda>ix. id' (snd ix) \<notin> id' ` set (take (fst ix) docs)) (enumerate 0 docs))"


definition singleSpaced :: "string \<Rightarrow> bool" where
  \<comment> \<open>the only white space is the space, and no two spaces are adjacent\<close>
  "singleSpaced s \<longleftrightarrow>
     (\<forall>c \<in> set s. isWhiteSpace c \<longrightarrow> c = CHR '' '') \<and> \<not> sublist ''  '' s"

section \<open>Text preprocessing\<close>

lemma singleSpaced_sublist: "singleSpaced s \<Longrightarrow> sublist t s \<Longrightarrow> singleSpaced t"
  unfolding singleSpaced_def
  by (meson set_mono_sublist sublist_order.order_trans subsetD)

lemma replaceRuns_dropWhile_head:
  "replaceRuns p r (dropWhile p cs) = [] \<or>
   (\<exists>d ds. replaceRuns p r (dropWhile p cs) = d # ds \<and> \<not> p d)"
proof (cases "dropWhile p cs")
  case Nil
  show ?thesis unfolding Nil by simp
next
  case (Cons d ds)
  then have "\<not> p d" by (metis hd_dropWhile list.sel(1) list.distinct(1))
  with Cons show ?thesis by simp
qed

lemma set_replaceRuns: "set (replaceRuns p r s) \<subseteq> {c \<in> set s. \<not> p c} \<union> {r}"
proof (induction p r s rule: replaceRuns.induct)
  case (1 p r)
  then show ?case by simp
next
  case (2 p r c cs)
  show ?case
  proof (cases "p c")
    case True
    with 2 have "set (replaceRuns p r (dropWhile p cs)) \<subseteq> {c \<in> set (dropWhile p cs). \<not> p c} \<union> {r}" by simp
    moreover have "set (dropWhile p cs) \<subseteq> set cs" by (simp add: set_dropWhileD subsetI)
    ultimately show ?thesis using True by auto
  next
    case False
    with 2 show ?thesis by auto
  qed
qed

lemma no_double_replaceRuns: "\<not> sublist [CHR '' '', CHR '' ''] (replaceRuns isWhiteSpace (CHR '' '') s)"
proof (induction isWhiteSpace "CHR '' ''" s rule: replaceRuns.induct)
  case 1
  then show ?case by simp
next
  case (2 c cs)
  show ?case
  proof (cases "isWhiteSpace c")
    case True
    have sp: "isWhiteSpace (CHR '' '')" by (simp add: isWhiteSpace_def)
    from True 2 have ih: "\<not> sublist [CHR '' '', CHR '' ''] (replaceRuns isWhiteSpace (CHR '' '') (dropWhile isWhiteSpace cs))" by simp
    from replaceRuns_dropWhile_head [of isWhiteSpace "CHR '' ''" cs] sp
    have "\<not> prefix [CHR '' '', CHR '' ''] (CHR '' '' # replaceRuns isWhiteSpace (CHR '' '') (dropWhile isWhiteSpace cs))"
      by auto
    with ih True show ?thesis by (simp add: sublist_Cons_right)
  next
    case False
    then have "c \<noteq> CHR '' ''" by (auto simp: isWhiteSpace_def)
    with False 2 show ?thesis by (simp add: sublist_Cons_right)
  qed
qed

lemma singleSpaced_replaceRuns: "singleSpaced (replaceRuns isWhiteSpace (CHR '' '') s)"
  unfolding singleSpaced_def
  using set_replaceRuns [of isWhiteSpace "CHR '' ''" s] no_double_replaceRuns [of s]
  by auto

lemma replaceRuns_id: "\<forall>c\<in>set s. \<not> p c \<Longrightarrow> replaceRuns p r s = s"
  by (induction s) auto

lemma singleSpaced_Cons: "singleSpaced (c # cs) \<Longrightarrow> singleSpaced cs"
  using singleSpaced_sublist [of "c # cs" cs] by (simp add: sublist_Cons_right)

lemma replaceRuns_singleSpaced:
  "singleSpaced s \<Longrightarrow> replaceRuns isWhiteSpace (CHR '' '') s = s"
proof (induction s)
  case Nil
  then show ?case by simp
next
  case (Cons c cs)
  then have ih: "replaceRuns isWhiteSpace (CHR '' '') cs = cs"
    using singleSpaced_Cons by blast
  show ?case
  proof (cases "isWhiteSpace c")
    case True
    with Cons.prems have c: "c = CHR '' ''" by (simp add: singleSpaced_def)
    have "dropWhile isWhiteSpace cs = cs"
    proof (cases cs)
      case Nil
      then show ?thesis by simp
    next
      case (Cons d ds)
      have "\<not> isWhiteSpace d"
      proof
        assume w: "isWhiteSpace d"
        with Cons.prems Cons have "d = CHR '' ''" by (simp add: singleSpaced_def)
        with c Cons have "prefix [CHR '' '', CHR '' ''] (c # cs)" by simp
        then have "sublist [CHR '' '', CHR '' ''] (c # cs)" by (rule prefix_imp_sublist)
        with Cons.prems show False by (simp add: singleSpaced_def)
      qed
      with Cons show ?thesis by simp
    qed
    with True c ih show ?thesis by simp
  next
    case False
    with ih show ?thesis by simp
  qed
qed

lemma replaceRuns_newline_singleSpaced:
  "singleSpaced s \<Longrightarrow> replaceRuns (\<lambda>c. c = CHR 0x0A) (CHR 0x0A) s = s"
proof (rule replaceRuns_id, rule ballI)
  fix c assume "singleSpaced s" "c \<in> set s"
  then have "isWhiteSpace c \<longrightarrow> c = CHR '' ''" by (simp add: singleSpaced_def)
  then show "c \<noteq> CHR 0x0A" by (auto simp: isWhiteSpace_def)
qed

lemma sublist_trim: "sublist (trim s) s"
proof -
  have "suffix (dropWhile isWhiteSpace (rev (dropWhile isWhiteSpace s))) (rev (dropWhile isWhiteSpace s))"
    by (rule suffix_dropWhile)
  then have "prefix (trim s) (dropWhile isWhiteSpace s)"
    by (simp add: trim_def suffix_to_prefix)
  moreover have "suffix (dropWhile isWhiteSpace s) s" by (rule suffix_dropWhile)
  ultimately show ?thesis
    by (meson prefix_imp_sublist suffix_imp_sublist sublist_order.order_trans)
qed

lemma trim_id_iff:
  "trim s = s \<longleftrightarrow> s = [] \<or> (\<not> isWhiteSpace (hd s) \<and> \<not> isWhiteSpace (last s))"
proof (cases "s = []")
  case True
  then show ?thesis by (simp add: trim_def)
next
  case False
  show ?thesis
  proof
    assume t: "trim s = s"
    have "\<not> isWhiteSpace (hd s)"
    proof
      assume "isWhiteSpace (hd s)"
      with False have "length (dropWhile isWhiteSpace s) < length s"
        by (cases s) (auto simp: less_Suc_eq_le length_dropWhile_le)
      moreover have "length (trim s) \<le> length (dropWhile isWhiteSpace s)"
        using length_dropWhile_le [of isWhiteSpace "rev (dropWhile isWhiteSpace s)"]
        by (simp add: trim_def)
      ultimately show False using t by simp
    qed
    moreover have "\<not> isWhiteSpace (last s)"
    proof
      assume w: "isWhiteSpace (last s)"
      then have d: "dropWhile isWhiteSpace s = s" using \<open>\<not> isWhiteSpace (hd s)\<close> False by (cases s) auto
      from False w have "length (dropWhile isWhiteSpace (rev s)) < length (rev s)"
        by (cases "rev s") (auto simp: less_Suc_eq_le length_dropWhile_le last_rev hd_rev)
      with d t show False by (simp add: trim_def) (metis length_rev less_irrefl)
    qed
    ultimately show "s = [] \<or> (\<not> isWhiteSpace (hd s) \<and> \<not> isWhiteSpace (last s))" by simp
  next
    assume "s = [] \<or> (\<not> isWhiteSpace (hd s) \<and> \<not> isWhiteSpace (last s))"
    with False have h: "\<not> isWhiteSpace (hd s)" and l: "\<not> isWhiteSpace (last s)" by auto
    from h False have "dropWhile isWhiteSpace s = s" by (cases s) auto
    moreover from l False have "dropWhile isWhiteSpace (rev s) = rev s"
      by (cases "rev s") (auto simp: hd_rev)
    ultimately show "trim s = s" by (simp add: trim_def)
  qed
qed

lemma trim_ends: "trim s = [] \<or> (\<not> isWhiteSpace (hd (trim s)) \<and> \<not> isWhiteSpace (last (trim s)))"
proof (cases "trim s = []")
  case True
  then show ?thesis by simp
next
  case False
  let ?d = "dropWhile isWhiteSpace s"
  let ?e = "dropWhile isWhiteSpace (rev ?d)"
  from False have e: "?e \<noteq> []" by (simp add: trim_def)
  then have l: "\<not> isWhiteSpace (hd ?e)" by (rule hd_dropWhile)
  from e have d: "?d \<noteq> []" by (metis dropWhile.simps(1) rev.simps(1))
  then have hd: "\<not> isWhiteSpace (hd ?d)" by (rule hd_dropWhile)
  have "suffix ?e (rev ?d)" by (rule suffix_dropWhile)
  then obtain zs where zs: "rev ?d = zs @ ?e" by (auto simp: suffix_def)
  then have dz: "?d = rev ?e @ rev zs" by (metis rev_append rev_rev_ident)
  have "rev ?e \<noteq> []" using e by (metis rev_is_Nil_conv)
  then have "hd (rev ?e @ rev zs) = hd (rev ?e)" by (rule hd_append2)
  with dz have "hd ?d = hd (rev ?e)" by metis
  with hd have "\<not> isWhiteSpace (hd (trim s))" by (simp add: trim_def)
  moreover from l e have "\<not> isWhiteSpace (last (trim s))" by (simp add: trim_def last_rev)
  ultimately show ?thesis by simp
qed

lemma preprocessText_twice:
  "preprocessText (preprocessText t) = preprocessText t \<longleftrightarrow>
   \<not> (8000 < length (normalizeWhitespace t) \<and> normalizeWhitespace t ! 7999 = CHR '' '')"
proof -
  let ?N = "normalizeWhitespace t"
  let ?q = "preprocessText t"
  have ssN: "singleSpaced ?N"
    unfolding normalizeWhitespace_def
    using singleSpaced_replaceRuns [of t] 
    by (simp add: replaceRuns_newline_singleSpaced singleSpaced_sublist [OF _ sublist_trim])
  have q: "?q = take 8000 ?N" by (simp add: preprocessText_def)
  have ssq: "singleSpaced ?q"
    using ssN q by (metis singleSpaced_sublist sublist_take)
  have "normalizeWhitespace ?q = trim ?q"
    using ssq by (simp add: normalizeWhitespace_def replaceRuns_singleSpaced replaceRuns_newline_singleSpaced)
  moreover have "length (trim ?q) \<le> 8000"
    using sublist_length_le [OF sublist_trim [of ?q]] q by simp
  ultimately have pq: "preprocessText ?q = trim ?q"
    by (simp add: preprocessText_def)
  have ends: "?N = [] \<or> (\<not> isWhiteSpace (hd ?N) \<and> \<not> isWhiteSpace (last ?N))"
    using trim_ends unfolding normalizeWhitespace_def by blast
  show ?thesis
  proof (cases "8000 < length ?N")
    case False
    then have "?q = ?N" using q by simp
    with ends pq False show ?thesis by (simp add: trim_id_iff)
  next
    case True
    then have ne: "?q \<noteq> []" using q by auto
    from True have hdq: "hd ?q = hd ?N" using q by (simp add: hd_take)
    from True have lastq: "last ?q = ?N ! 7999"
      using q ne by (simp add: last_conv_nth)
    from True have "?N \<noteq> []" by auto
    with ends hdq have h: "\<not> isWhiteSpace (hd ?q)" by simp
    have mem: "?N ! 7999 \<in> set ?N" using True by simp
    with ssN have "isWhiteSpace (?N ! 7999) \<longleftrightarrow> ?N ! 7999 = CHR '' ''"
      by (auto simp: singleSpaced_def isWhiteSpace_def)
    with pq ne h lastq True show ?thesis by (simp add: trim_id_iff)
  qed
qed

lemma replaceRuns_replicate:
  "\<not> p a \<Longrightarrow> replaceRuns p r (replicate n a @ xs) = replicate n a @ replaceRuns p r xs"
  by (induction n) simp_all

lemma normalizeWhitespace_cut_example: "normalizeWhitespace (replicate 7999 CHR ''a'' @ '' b'') = replicate 7999 CHR ''a'' @ '' b''"
  by (simp add: normalizeWhitespace_def replaceRuns_replicate isWhiteSpace_def trim_def
      dropWhile_append1 dropWhile_replicate)

lemma normalizeWhitespace_cut_example_again: "normalizeWhitespace (replicate 7999 CHR ''a'' @ '' '') = replicate 7999 CHR ''a''"
  by (simp add: normalizeWhitespace_def replaceRuns_replicate isWhiteSpace_def trim_def
      dropWhile_append1 dropWhile_replicate)

text \<open>
  C8. The specification says that \<open>preprocess\<close> is idempotent. \<open>preprocessText\<close> trims
  before it cuts at 8000 characters, so the cut can leave a space at the end, and a
  second application trims that space. It is idempotent exactly on the texts whose
  normalised and trimmed form has at most 8000 characters, or has a character other than
  a space at position 8000.
\<close>

theorem preprocessText_idempotent_iff:
  "preprocessText (preprocessText t) = preprocessText t \<longleftrightarrow>
   \<not> (8000 < length (normalizeWhitespace t) \<and> normalizeWhitespace t ! 7999 = CHR '' '')"
  by (rule preprocessText_twice)

theorem preprocessText_idempotent_iff_witness:
  "\<not> (8000 < length (normalizeWhitespace ''  a   b  '') \<and>
      normalizeWhitespace ''  a   b  '' ! 7999 = CHR '' '') \<and>
   preprocessText ''  a   b  '' = ''a b'' \<and>
   preprocessText (preprocessText ''  a   b  '') = preprocessText ''  a   b  ''"
proof -
  have n: "normalizeWhitespace ''  a   b  '' = ''a b''"
    by (simp add: normalizeWhitespace_def trim_def isWhiteSpace_def)
  then have short: "\<not> (8000 < length (normalizeWhitespace ''  a   b  '') \<and>
      normalizeWhitespace ''  a   b  '' ! 7999 = CHR '' '')" by simp
  have p: "preprocessText ''  a   b  '' = ''a b''" by (simp add: preprocessText_def n)
  from short preprocessText_idempotent_iff [of "''  a   b  ''"]
  have "preprocessText (preprocessText ''  a   b  '') = preprocessText ''  a   b  ''" by blast
  with short p show ?thesis by blast
qed

text \<open>
  The text of 7999 letters, a space and one more letter is cut after the space: the
  first application gives the letters and the space, the second the letters alone.
\<close>

theorem preprocessText_idempotent_counterexample:
  "preprocessText (replicate 7999 CHR ''a'' @ '' b'') = replicate 7999 CHR ''a'' @ '' '' \<and>
   preprocessText (replicate 7999 CHR ''a'' @ '' '') = replicate 7999 CHR ''a'' \<and>
   preprocessText (preprocessText (replicate 7999 CHR ''a'' @ '' b'')) \<noteq>
     preprocessText (replicate 7999 CHR ''a'' @ '' b'')"
proof -
  have p1: "preprocessText (replicate 7999 CHR ''a'' @ '' b'') = replicate 7999 CHR ''a'' @ '' ''"
    by (simp add: preprocessText_def normalizeWhitespace_cut_example)
  have p2: "preprocessText (replicate 7999 CHR ''a'' @ '' '') = replicate 7999 CHR ''a''"
    by (simp add: preprocessText_def normalizeWhitespace_cut_example_again)
  have "length (replicate 7999 CHR ''a'') \<noteq> length (replicate 7999 CHR ''a'' @ '' '')" by simp
  then have "replicate 7999 CHR ''a'' \<noteq> replicate 7999 CHR ''a'' @ '' ''" by metis
  with p1 p2 show ?thesis by simp
qed

section \<open>The plain search\<close>

lemma nearestRows_interpolate:
  "nearestRows env (interpolate q) embedding pk cond key topK rows = Inl (reject env)"
  by (simp add: nearestRows_def distanceTo_def interpolate_def)

lemma searchRelevantRules_throws:
  "\<exists>cause. searchRelevantRules env query topK minSimilarity =
     Inl (Error (''RAG search failed: '' @ errorMessage cause))"
  unfolding searchRelevantRules_def
  by (auto simp: nearestRows_interpolate split: sum.splits)

text \<open>
  C1. The specification says that the search returns at most \<open>topK\<close> results, each of
  a similarity of at least \<open>minSimilarity\<close>, and the empty list, not an error, when no
  document is within the threshold. The query of \<open>searchRelevantRules\<close> is written for
  that: it keeps the rows within the distance, orders them by distance and limits them
  to \<open>topK\<close>. But it hands the query embedding to the store as a row, the store rejects
  the statement, and the function throws on every call. Here the client and the store
  answer, no stored document has a similarity above 0.8, and the function throws where
  the specification has the empty list.
\<close>

theorem searchRelevantRules_rejected:
  "searchRelevantRules (example_env scenario_docs []) ''brute force login detection'' 5 0.8 =
     Inl (Error ''RAG search failed: operator does not exist: vector <=> record'')"
  by (simp add: searchRelevantRules_def nearestRows_interpolate example_env_def
      errorMessage_def)

lemma searchRelevantRules_wraps:
  "isl (generateEmbedding env (preprocessText query)) \<or> isl (select_knowledgeDocuments env) \<Longrightarrow>
   \<exists>cause. (generateEmbedding env (preprocessText query) = Inl cause \<or>
             select_knowledgeDocuments env = Inl cause) \<and>
     searchRelevantRules env query topK minSimilarity =
       Inl (Error (''RAG search failed: '' @ errorMessage cause))"
  unfolding searchRelevantRules_def
  by (auto split: sum.splits simp: isl_def)

text \<open>
  C9. When the embedding call or the query to the store fails, \<open>searchRelevantRules\<close>
  fails too: it throws an error whose message is \<open>RAG search failed:\<close> followed by the
  message of the failure, and it returns no list, empty or not.
\<close>

theorem searchRelevantRules_propagates:
  "isl (generateEmbedding env (preprocessText query)) \<or> isl (select_knowledgeDocuments env) \<Longrightarrow>
   (\<exists>cause. (generateEmbedding env (preprocessText query) = Inl cause \<or>
              select_knowledgeDocuments env = Inl cause) \<and>
      searchRelevantRules env query topK minSimilarity =
        Inl (Error (''RAG search failed: '' @ errorMessage cause))) \<and>
   (\<forall>results. searchRelevantRules env query topK minSimilarity \<noteq> Inr results)"
  using searchRelevantRules_wraps [of env query topK minSimilarity] by auto

theorem searchRelevantRules_propagates_witness:
  "isl (select_knowledgeDocuments example_env_down) \<and>
   searchRelevantRules example_env_down ''brute force login detection'' 5 0.7 =
     Inl (Error ''RAG search failed: connection refused'') \<and>
   searchRelevantRules example_env_down ''brute force login detection'' 5 0.7 \<noteq> Inr []"
proof -
  have down: "isl (select_knowledgeDocuments example_env_down)"
    by (simp add: example_env_down_def)
  have up: "generateEmbedding example_env_down (preprocessText ''brute force login detection'')
      = Inr 0"
    by (simp add: example_env_down_def)
  have sel: "select_knowledgeDocuments example_env_down = Inl (Error ''connection refused'')"
    by (simp add: example_env_down_def)
  from searchRelevantRules_propagates
    [of example_env_down "''brute force login detection''" 5 "0.7"] down
  obtain cause where
    c: "generateEmbedding example_env_down (preprocessText ''brute force login detection'')
          = Inl cause \<or> select_knowledgeDocuments example_env_down = Inl cause"
    and r: "searchRelevantRules example_env_down ''brute force login detection'' 5 0.7 =
        Inl (Error (''RAG search failed: '' @ errorMessage cause))"
    by blast
  from c up sel have "cause = Error ''connection refused''" by simp
  with r down show ?thesis by (simp add: errorMessage_def)
qed

section \<open>The weighted search\<close>

lemma searchPantherRules_throws:
  "\<exists>cause. searchPantherRules env query topK minSimilarity =
     Inl (Error (''Panther rule search failed: '' @ errorMessage cause))"
  unfolding searchPantherRules_def selectPantherRules_def
  by (auto simp: nearestRows_interpolate split: sum.splits)

lemma searchPantherRules_example:
  "searchPantherRules (example_env docs examples) query topK minSimilarity =
     Inl (Error ''Panther rule search failed: operator does not exist: vector <=> record'')"
  by (simp add: searchPantherRules_def selectPantherRules_def nearestRows_interpolate
      example_env_def errorMessage_def)


text \<open>
  C2. The specification says that the weighted search returns its results in descending
  order of the weighted score, which is what their similarity field holds, and that the
  official rule of raw similarity 0.72 comes before the unlabeled note of 0.75. The
  query of \<open>searchPantherRules\<close> is written for that, with the multipliers 1.3, 1.2 and
  1.1 in its \<open>CASE\<close>. But it hands the query embedding to the store as a row, as
  \<open>searchRelevantRules\<close> does, the store rejects the statement, and the function throws
  on every call. Here the store holds the two documents of the scenario and the
  thresholds admit both; the function returns no ranking, it throws.
\<close>

theorem searchPantherRules_rejected:
  "searchPantherRules (example_env scenario_docs []) ''brute force login detection'' 5 0.7 =
     Inl (Error ''Panther rule search failed: operator does not exist: vector <=> record'')"
  by (rule searchPantherRules_example)



section \<open>The merged documents\<close>

lemma dropSeen_filter:
  "dropSeen S xs =
     map snd (filter (\<lambda>ix. id' (snd ix) \<notin> S \<and> id' (snd ix) \<notin> id' ` set (take (fst ix - n) xs))
                (enumerate n xs))"
proof (induction xs arbitrary: S n)
  case Nil
  then show ?case by simp
next
  case (Cons x xs)
  have tl: "\<And>T. filter (\<lambda>ix. id' (snd ix) \<notin> T \<and> id' (snd ix) \<notin> id' ` set (take (fst ix - n) (x # xs)))
                (enumerate (Suc n) xs)
          = filter (\<lambda>ix. id' (snd ix) \<notin> insert (id' x) T \<and> id' (snd ix) \<notin> id' ` set (take (fst ix - Suc n) xs))
                (enumerate (Suc n) xs)"
  proof (rule filter_cong [OF refl])
    fix T ix assume "ix \<in> set (enumerate (Suc n) xs)"
    then have "Suc n \<le> fst ix" by (auto simp: in_set_enumerate_eq)
    then have "fst ix - n = Suc (fst ix - Suc n)" by simp
    then show "(id' (snd ix) \<notin> T \<and> id' (snd ix) \<notin> id' ` set (take (fst ix - n) (x # xs)))
       = (id' (snd ix) \<notin> insert (id' x) T \<and> id' (snd ix) \<notin> id' ` set (take (fst ix - Suc n) xs))"
      by auto
  qed
  show ?case
  proof (cases "id' x \<in> S")
    case True
    then have "insert (id' x) S = S" by auto
    with True show ?thesis
      using Cons.IH [of S "Suc n"] tl [of S] by simp
  next
    case False
    then show ?thesis
      using Cons.IH [of "insert (id' x) S" "Suc n"] tl [of S] by simp
  qed
qed

lemma dropSeen_firstOccurrences: "dropSeen {} docs = firstOccurrences docs"
  using dropSeen_filter [of "{}" docs 0] by (simp add: firstOccurrences_def)

lemma dropSeen_distinct:
  "distinct (map id' (dropSeen S xs)) \<and> id' ` set (dropSeen S xs) \<inter> S = {}"
proof (induction xs arbitrary: S)
  case Nil
  then show ?case by simp
next
  case (Cons x xs)
  show ?case
  proof (cases "id' x \<in> S")
    case True
    with Cons [of S] show ?thesis by simp
  next
    case False
    with Cons [of "insert (id' x) S"] show ?thesis by auto
  qed
qed

lemma mergeDocuments_firstOccurrences:
  "mergeDocuments pantherRules functionDocs =
     take 5 (firstOccurrences (pantherRules @ functionDocs)) \<and>
   distinct (map id' (mergeDocuments pantherRules functionDocs))"
proof -
  have "distinct (map id' (dropSeen {} (pantherRules @ functionDocs)))"
    using dropSeen_distinct by blast
  then have "distinct (take 5 (map id' (dropSeen {} (pantherRules @ functionDocs))))"
    by (rule distinct_take)
  then show ?thesis
    by (simp add: mergeDocuments_def take_map dropSeen_firstOccurrences)
qed

lemma searchByPantherFunctions_empty:
  "searchByPantherFunctions env query topK = Inr []"
  unfolding searchByPantherFunctions_def
  by (auto simp: nearestRows_interpolate split: sum.splits)

lemma buildEnhancedContext_throws:
  "\<exists>cause. buildEnhancedContext L w code =
     Inl (Error (''Panther rule search failed: '' @ errorMessage cause))"
proof -
  from searchPantherRules_throws [of "env_rules w" code 3 "0.75"]
  obtain cause where "searchPantherRules (env_rules w) code 3 0.75 =
     Inl (Error (''Panther rule search failed: '' @ errorMessage cause))" by (elim exE)
  then have "buildEnhancedContext L w code =
     Inl (Error (''Panther rule search failed: '' @ errorMessage cause))"
    by (simp only: buildEnhancedContext_def sum.case)
  then show ?thesis by (rule exI)
qed

lemma buildEnhancedContext_example:
  "buildEnhancedContext example_literals (example_world docs) code =
     Inl (Error ''Panther rule search failed: operator does not exist: vector <=> record'')"
  by (simp add: buildEnhancedContext_def example_world_def searchPantherRules_example)

text \<open>
  C5. The specification says that the \<open>relevantDocuments\<close> returned by
  \<open>buildEnhancedContext\<close> are the results of the weighted search followed by those of
  the keyword search, later occurrences of an identity dropped, at most five, and so
  without two entries of one identity. The merge that the function applies to the two
  lists does that. But the function never gets to it: its weighted search throws on
  every call, as the store rejects its statement, and \<open>buildEnhancedContext\<close> throws
  with it; its keyword search meets the same rejection and yields the empty list. Here
  the store holds two documents, one of which both searches are written to find, and no
  list of documents is returned.
\<close>

theorem buildEnhancedContext_rejected:
  "buildEnhancedContext example_literals (example_world overlap_docs) ''x = 1'' =
     Inl (Error ''Panther rule search failed: operator does not exist: vector <=> record'') \<and>
   searchByPantherFunctions (example_env overlap_docs []) ''x = 1'' 2 = Inr []"
  using buildEnhancedContext_example [of overlap_docs "''x = 1''"]
    searchByPantherFunctions_empty [of "example_env overlap_docs []" "''x = 1''" 2]
  by (rule conjI)

section \<open>The compliance heuristic and its caller\<close>

lemma buildRuleComplianceContext_eval:
  "complianceScore (buildRuleComplianceContext L code documents) =
     max 0 (100
       - (if js_includes (toLowerCase code) ''def rule('' then 0 else 30)
       - (if js_includes (toLowerCase code) ''event.get('' \<or>
             js_includes (toLowerCase code) ''deep_get('' then 0 else 15)
       - (if js_includes (toLowerCase code) ''return true'' \<or>
             js_includes (toLowerCase code) ''return false'' then 0 else 20))"
  by (simp add: buildRuleComplianceContext_def recordMissing_def Let_def)

lemma buildRuleComplianceContext_missing:
  "\<not> js_includes (toLowerCase code) ''def rule('' \<Longrightarrow>
   \<not> js_includes (toLowerCase code) ''event.get('' \<Longrightarrow>
   \<not> js_includes (toLowerCase code) ''deep_get('' \<Longrightarrow>
   \<not> js_includes (toLowerCase code) ''return true'' \<Longrightarrow>
   \<not> js_includes (toLowerCase code) ''return false'' \<Longrightarrow>
   missingRequirements (buildRuleComplianceContext L code documents) =
     [lit_missingRule L, lit_missingAccess L, lit_missingReturn L]"
  by (simp add: buildRuleComplianceContext_def recordMissing_def Let_def)

lemma no_patterns_in_assignment:
  "\<not> js_includes (toLowerCase ''x = 1'') ''def rule(''"
  "\<not> js_includes (toLowerCase ''x = 1'') ''event.get(''"
  "\<not> js_includes (toLowerCase ''x = 1'') ''deep_get(''"
  "\<not> js_includes (toLowerCase ''x = 1'') ''return true''"
  "\<not> js_includes (toLowerCase ''x = 1'') ''return false''"
  by (simp_all add: toLowerCase_def lowerChar_def js_includes_def sublist_code)

text \<open>
  C4. The score of \<open>buildRuleComplianceContext\<close> is 100 less 30 when the lowered code
  does not contain \<open>def rule(\<close>, less 15 when it contains neither \<open>event.get(\<close> nor
  \<open>deep_get(\<close>, less 20 when it contains neither \<open>return true\<close> nor \<open>return false\<close>,
  and not below 0. It is between 0 and 100 for every code and every list of documents.
  When all three are absent, as in the empty text, the score is 35 and exactly the three
  requirements are recorded.
\<close>

theorem buildRuleComplianceContext_score:
  "complianceScore (buildRuleComplianceContext L code documents) =
     max 0 (100
       - (if js_includes (toLowerCase code) ''def rule('' then 0 else 30)
       - (if js_includes (toLowerCase code) ''event.get('' \<or>
             js_includes (toLowerCase code) ''deep_get('' then 0 else 15)
       - (if js_includes (toLowerCase code) ''return true'' \<or>
             js_includes (toLowerCase code) ''return false'' then 0 else 20))
   \<and> 0 \<le> complianceScore (buildRuleComplianceContext L code documents)
   \<and> complianceScore (buildRuleComplianceContext L code documents) \<le> 100
   \<and> (\<not> js_includes (toLowerCase code) ''def rule('' \<and>
      \<not> js_includes (toLowerCase code) ''event.get('' \<and>
      \<not> js_includes (toLowerCase code) ''deep_get('' \<and>
      \<not> js_includes (toLowerCase code) ''return true'' \<and>
      \<not> js_includes (toLowerCase code) ''return false'' \<longrightarrow>
      complianceScore (buildRuleComplianceContext L code documents) = 35 \<and>
      missingRequirements (buildRuleComplianceContext L code documents) =
        [lit_missingRule L, lit_missingAccess L, lit_missingReturn L] \<and>
      length (missingRequirements (buildRuleComplianceContext L code documents)) = 3)
   \<and> complianceScore (buildRuleComplianceContext L [] documents) = 35
   \<and> length (missingRequirements (buildRuleComplianceContext L [] documents)) = 3"
proof -
  have empty: "\<not> js_includes (toLowerCase []) ''def rule(''"
    "\<not> js_includes (toLowerCase []) ''event.get(''"
    "\<not> js_includes (toLowerCase []) ''deep_get(''"
    "\<not> js_includes (toLowerCase []) ''return true''"
    "\<not> js_includes (toLowerCase []) ''return false''"
    by (simp_all add: toLowerCase_def js_includes_def)
  show ?thesis
    using buildRuleComplianceContext_missing [of code L documents]
      buildRuleComplianceContext_missing [OF empty, of L documents] empty
    by (simp add: buildRuleComplianceContext_eval)
qed

theorem buildRuleComplianceContext_score_witness:
  "\<not> js_includes (toLowerCase ''x = 1'') ''def rule('' \<and>
   \<not> js_includes (toLowerCase ''x = 1'') ''event.get('' \<and>
   \<not> js_includes (toLowerCase ''x = 1'') ''deep_get('' \<and>
   \<not> js_includes (toLowerCase ''x = 1'') ''return true'' \<and>
   \<not> js_includes (toLowerCase ''x = 1'') ''return false'' \<and>
   complianceScore (buildRuleComplianceContext example_literals ''x = 1'' []) = 35 \<and>
   missingRequirements (buildRuleComplianceContext example_literals ''x = 1'' []) =
     [''rule function missing'', ''safe access missing'', ''boolean return missing'']"
  using buildRuleComplianceContext_score [of example_literals "''x = 1''" "[]"]
    no_patterns_in_assignment
  by (simp add: example_literals_def)



section \<open>Prompt assembly\<close>


















section \<open>Statistics\<close>

lemma getSearchStats_caught:
  "(\<exists>stats. getSearchStats env1 env2 env3 env4 = Inr stats) \<and>
   (isl (select_knowledgeDocuments env1) \<or> isl (select_codeExamples env2) \<or>
    isl (select_knowledgeDocuments env3) \<or> isl (select_codeExamples env4) \<longrightarrow>
    getSearchStats env1 env2 env3 env4 =
      Inr \<lparr>totalDocuments = 0, totalExamples = 0,
           documentTypes = Map.empty, exampleCategories = Map.empty\<rparr>)"
  unfolding getSearchStats_def emptyStats_def
  by (auto split: sum.splits simp: Let_def)

text \<open>
  C10. \<open>getSearchStats\<close> never fails: it always returns statistics, and when any of
  its four queries throws, it returns zero documents, zero examples and two empty maps.
\<close>

theorem getSearchStats_never_fails:
  "(\<exists>stats. getSearchStats env1 env2 env3 env4 = Inr stats) \<and>
   (isl (select_knowledgeDocuments env1) \<or> isl (select_codeExamples env2) \<or>
    isl (select_knowledgeDocuments env3) \<or> isl (select_codeExamples env4) \<longrightarrow>
    getSearchStats env1 env2 env3 env4 =
      Inr \<lparr>totalDocuments = 0, totalExamples = 0,
           documentTypes = Map.empty, exampleCategories = Map.empty\<rparr>)"
  by (rule getSearchStats_caught)

theorem getSearchStats_never_fails_witness:
  "isl (select_knowledgeDocuments example_env_down) \<and>
   getSearchStats (example_env scenario_docs []) (example_env scenario_docs [])
       example_env_down (example_env scenario_docs []) =
     Inr \<lparr>totalDocuments = 0, totalExamples = 0,
          documentTypes = Map.empty, exampleCategories = Map.empty\<rparr>"
proof -
  have down: "isl (select_knowledgeDocuments example_env_down)"
    by (simp add: example_env_down_def)
  with getSearchStats_never_fails
    [of "example_env scenario_docs []" "example_env scenario_docs []"
        example_env_down "example_env scenario_docs []"]
  show ?thesis by (elim conjE, simp)
qed

end
